theory Spec2Isabelle
  imports Main "HOL-Library.Word"
begin

unbundle bit_operations_syntax

section \<open>RateLimiter (crawler.py, lines 10-41)\<close>

text \<open>
  A \<^verbatim>\<open>datetime\<close> has microsecond resolution: a point in time is the number of
  microseconds since a fixed epoch, an \<^typ>\<open>int\<close>. \<^verbatim>\<open>timedelta(minutes=1)\<close> is
  60000000 microseconds and \<^verbatim>\<open>timedelta(seconds=1)\<close> is 1000000.
  The deque \<^verbatim>\<open>self.requests\<close> is a list, oldest entry first: \<^verbatim>\<open>popleft\<close> drops the
  head, \<^verbatim>\<open>append\<close> adds at the end.
\<close>

record RateLimiter =
  requests_per_minute :: int
  burst_limit :: int
  requests :: "int list"

definition RateLimiter_init :: "int \<Rightarrow> int \<Rightarrow> RateLimiter" where
  "RateLimiter_init rpm bl =
     \<lparr>requests_per_minute = rpm, burst_limit = bl, requests = []\<rparr>"

text \<open>
  Lines 23-24: \<^verbatim>\<open>while self.requests and self.requests[0] < minute_ago: popleft()\<close>.
\<close>

fun evict :: "int \<Rightarrow> int list \<Rightarrow> int list" where
  "evict minute_ago [] = []"
| "evict minute_ago (r # rs) = (if r < minute_ago then evict minute_ago rs else r # rs)"

text \<open>
  \<^verbatim>\<open>can_make_request\<close>, with the reading of \<^verbatim>\<open>datetime.now()\<close> at line 18 as the
  argument \<open>now\<close>. The result is the returned boolean and the limiter afterwards.
  The eviction of lines 23-24 stays in effect on both rejecting returns.
\<close>

definition can_make_request :: "int \<Rightarrow> RateLimiter \<Rightarrow> bool \<times> RateLimiter" where
  "can_make_request now rl =
     (let minute_ago = now - 60000000;
          rs = evict minute_ago (requests rl)
      in if requests_per_minute rl \<le> int (length rs) then (False, rl\<lparr>requests := rs\<rparr>)
         else
           let last_second = now - 1000000;
               recent_requests = length (filter (\<lambda>req. last_second < req) rs)
           in if burst_limit rl \<le> int recent_requests then (False, rl\<lparr>requests := rs\<rparr>)
              else (True, rl\<lparr>requests := rs @ [now]\<rparr>))"

text \<open>
  A sequence of calls, one per clock reading in the list. The first component collects
  the timestamps of the accepted calls, in call order; the limiter itself never reads it.
\<close>

fun call_seq :: "int list \<Rightarrow> int list \<times> RateLimiter \<Rightarrow> int list \<times> RateLimiter" where
  "call_seq [] s = s"
| "call_seq (now # ts) (acc, rl) =
     (case can_make_request now rl of
        (ok, rl') \<Rightarrow> call_seq ts (if ok then acc @ [now] else acc, rl'))"

definition accepted_in_minute :: "int \<Rightarrow> int list \<Rightarrow> nat" where
  "accepted_in_minute now acc = length (filter (\<lambda>t. now - 60000000 \<le> t \<and> t \<le> now) acc)"

definition accepted_in_second :: "int \<Rightarrow> int list \<Rightarrow> nat" where
  "accepted_in_second now acc = length (filter (\<lambda>t. now - 1000000 < t \<and> t \<le> now) acc)"

text \<open>
  \<^verbatim>\<open>wait_if_needed\<close> (lines 39-41) reads the clock once per attempt and sleeps between
  attempts. The clock is the current instant and the number of sleeps so far.
  \<^verbatim>\<open>time.sleep(d)\<close> suspends for at least \<open>d\<close>: the instant advances by \<open>d\<close> plus an
  overshoot that the environment chooses (\<open>jitter\<close>, indexed by the sleep's number).
  The loop has no bound of its own, so the function is partial: \<open>None\<close> is the call
  that never returns.
\<close>

record clock =
  now_us :: int
  naps :: nat

definition time_sleep :: "(nat \<Rightarrow> nat) \<Rightarrow> int \<Rightarrow> clock \<Rightarrow> clock" where
  "time_sleep jitter d c =
     \<lparr>now_us = now_us c + d + int (jitter (naps c)), naps = Suc (naps c)\<rparr>"

partial_function (option) wait_if_needed ::
    "(nat \<Rightarrow> nat) \<Rightarrow> clock \<Rightarrow> RateLimiter \<Rightarrow> (clock \<times> RateLimiter) option" where
  "wait_if_needed jitter c rl =
     (if fst (can_make_request (now_us c) rl)
      then Some (c, snd (can_make_request (now_us c) rl))
      else wait_if_needed jitter (time_sleep jitter 100000 c)
             (snd (can_make_request (now_us c) rl)))"

section \<open>PersonData and the privacy filter (crawler.py, lines 52-60, 102-110)\<close>

text \<open>
  A \<^verbatim>\<open>str\<close> is a \<^typ>\<open>string\<close>: the model covers references and names written in
  ASCII, where \<^verbatim>\<open>str.lower\<close> maps \<^verbatim>\<open>A\<close>..\<^verbatim>\<open>Z\<close> to \<^verbatim>\<open>a\<close>..\<^verbatim>\<open>z\<close> and leaves every other
  character as it is, and where \<^verbatim>\<open>str.encode()\<close> is the identity on the bytes.
  \<^verbatim>\<open>last_updated\<close> holds \<^verbatim>\<open>datetime.now().isoformat()\<close>; the model keeps the instant
  that the string denotes.
\<close>

record PersonData =
  name :: string
  professional_title :: "string option"
  company :: "string option"
  education :: "string list option"
  public_links :: "string list option"
  last_updated :: "int option"

text \<open>\<^verbatim>\<open>PersonData(name=name)\<close>: every other field takes its default \<^verbatim>\<open>None\<close>.\<close>

definition PersonData_init :: "string \<Rightarrow> PersonData" where
  "PersonData_init n =
     \<lparr>name = n, professional_title = None, company = None, education = None,
      public_links = None, last_updated = None\<rparr>"

definition lower_char :: "char \<Rightarrow> char" where
  "lower_char c =
     (case map_of (zip ''ABCDEFGHIJKLMNOPQRSTUVWXYZ'' ''abcdefghijklmnopqrstuvwxyz'') c of
        Some l \<Rightarrow> l
      | None \<Rightarrow> c)"

definition lower :: "string \<Rightarrow> string" where
  "lower s = map lower_char s"

fun starts_with :: "string \<Rightarrow> string \<Rightarrow> bool" where
  "starts_with [] s = True"
| "starts_with (d # ds) [] = False"
| "starts_with (d # ds) (x # xs) = (d = x \<and> starts_with ds xs)"

text \<open>Python's \<^verbatim>\<open>d in s\<close> on strings: \<open>d\<close> occurs in \<open>s\<close> as a contiguous substring.\<close>

fun substring_in :: "string \<Rightarrow> string \<Rightarrow> bool" where
  "substring_in d [] = (d = [])"
| "substring_in d (x # xs) = (starts_with d (x # xs) \<or> substring_in d xs)"

definition allowed_domains :: "string list" where
  "allowed_domains =
     [''linkedin.com/in/'', ''github.com/'', ''scholar.google.com/'', ''twitter.com/'']"

definition is_safe_link :: "string \<Rightarrow> bool" where
  "is_safe_link link = list_ex (\<lambda>domain. substring_in domain (lower link)) allowed_domains"

text \<open>
  \<^verbatim>\<open>sanitize_data\<close> (lines 87-100) builds a new record; \<open>now\<close> is its reading of
  \<^verbatim>\<open>datetime.now()\<close>. \<^verbatim>\<open>data.public_links or []\<close> is the empty list for \<^verbatim>\<open>None\<close>.
\<close>

definition sanitize_data :: "int \<Rightarrow> PersonData \<Rightarrow> PersonData" where
  "sanitize_data now data =
     \<lparr>name = name data,
      professional_title = professional_title data,
      company = company data,
      education = education data,
      public_links =
        Some (filter is_safe_link (case public_links data of None \<Rightarrow> [] | Some ls \<Rightarrow> ls)),
      last_updated = Some now\<rparr>"

section \<open>SHA-256 and the record identifier (crawler.py, lines 69-72)\<close>

text \<open>
  \<^verbatim>\<open>hashlib.sha256(b).hexdigest()\<close>, after FIPS 180-4: bytes and words are machine
  words, additions wrap modulo \<open>2^32\<close>.
\<close>

definition rotr :: "nat \<Rightarrow> 32 word \<Rightarrow> 32 word" where
  "rotr n x = drop_bit n x OR push_bit (32 - n) x"

definition Ch :: "32 word \<Rightarrow> 32 word \<Rightarrow> 32 word \<Rightarrow> 32 word" where
  "Ch x y z = (x AND y) XOR (NOT x AND z)"

definition Maj :: "32 word \<Rightarrow> 32 word \<Rightarrow> 32 word \<Rightarrow> 32 word" where
  "Maj x y z = (x AND y) XOR (x AND z) XOR (y AND z)"

definition Sigma0 :: "32 word \<Rightarrow> 32 word" where
  "Sigma0 x = rotr 2 x XOR rotr 13 x XOR rotr 22 x"

definition Sigma1 :: "32 word \<Rightarrow> 32 word" where
  "Sigma1 x = rotr 6 x XOR rotr 11 x XOR rotr 25 x"

definition sigma0 :: "32 word \<Rightarrow> 32 word" where
  "sigma0 x = rotr 7 x XOR rotr 18 x XOR drop_bit 3 x"

definition sigma1 :: "32 word \<Rightarrow> 32 word" where
  "sigma1 x = rotr 17 x XOR rotr 19 x XOR drop_bit 10 x"

definition K256 :: "32 word list" where
  "K256 =
     [0x428a2f98, 0x71374491, 0xb5c0fbcf, 0xe9b5dba5, 0x3956c25b, 0x59f111f1, 0x923f82a4, 0xab1c5ed5]
     @ [0xd807aa98, 0x12835b01, 0x243185be, 0x550c7dc3, 0x72be5d74, 0x80deb1fe, 0x9bdc06a7, 0xc19bf174]
     @ [0xe49b69c1, 0xefbe4786, 0x0fc19dc6, 0x240ca1cc, 0x2de92c6f, 0x4a7484aa, 0x5cb0a9dc, 0x76f988da]
     @ [0x983e5152, 0xa831c66d, 0xb00327c8, 0xbf597fc7, 0xc6e00bf3, 0xd5a79147, 0x06ca6351, 0x14292967]
     @ [0x27b70a85, 0x2e1b2138, 0x4d2c6dfc, 0x53380d13, 0x650a7354, 0x766a0abb, 0x81c2c92e, 0x92722c85]
     @ [0xa2bfe8a1, 0xa81a664b, 0xc24b8b70, 0xc76c51a3, 0xd192e819, 0xd6990624, 0xf40e3585, 0x106aa070]
     @ [0x19a4c116, 0x1e376c08, 0x2748774c, 0x34b0bcb5, 0x391c0cb3, 0x4ed8aa4a, 0x5b9cca4f, 0x682e6ff3]
     @ [0x748f82ee, 0x78a5636f, 0x84c87814, 0x8cc70208, 0x90befffa, 0xa4506ceb, 0xbef9a3f7, 0xc67178f2]"

text \<open>
  Padding: the byte \<open>0x80\<close>, zero bytes up to 56 modulo 64, then the length in bits as
  eight bytes, most significant first.
\<close>

definition be_bytes :: "64 word \<Rightarrow> 8 word list" where
  "be_bytes n = map (\<lambda>i. ucast (drop_bit (8 * (7 - i)) n)) [0..<8]"

definition pad :: "8 word list \<Rightarrow> 8 word list" where
  "pad bs =
     bs @ [0x80] @ replicate ((119 - length bs mod 64) mod 64) 0 @ be_bytes (8 * of_nat (length bs))"

fun be_words :: "8 word list \<Rightarrow> 32 word list" where
  "be_words (a # b # c # d # bs) =
     (push_bit 24 (ucast a) OR push_bit 16 (ucast b) OR push_bit 8 (ucast c) OR ucast d)
       # be_words bs"
| "be_words bs = []"

text \<open>The message schedule: 16 words of the block, extended to 64.\<close>

fun schedule :: "nat \<Rightarrow> 32 word list \<Rightarrow> 32 word list" where
  "schedule 0 w = w"
| "schedule (Suc n) w =
     (let t = length w
      in schedule n
           (w @ [sigma1 (w ! (t - 2)) + w ! (t - 7) + sigma0 (w ! (t - 15)) + w ! (t - 16)]))"

type_synonym hash_state =
  "32 word \<times> 32 word \<times> 32 word \<times> 32 word \<times> 32 word \<times> 32 word \<times> 32 word \<times> 32 word"

fun round256 :: "hash_state \<Rightarrow> 32 word \<times> 32 word \<Rightarrow> hash_state" where
  "round256 (a, b, c, d, e, f, g, h) (k, w) =
     (let t1 = h + Sigma1 e + Ch e f g + k + w;
          t2 = Sigma0 a + Maj a b c
      in (t1 + t2, a, b, c, d + t1, e, f, g))"

fun add_state :: "hash_state \<Rightarrow> hash_state \<Rightarrow> hash_state" where
  "add_state (a, b, c, d, e, f, g, h) (a', b', c', d', e', f', g', h') =
     (a + a', b + b', c + c', d + d', e + e', f + f', g + g', h + h')"

definition compress :: "hash_state \<Rightarrow> 32 word list \<Rightarrow> hash_state" where
  "compress H block = add_state H (foldl round256 H (zip K256 (schedule 48 block)))"

fun blocks :: "nat \<Rightarrow> 32 word list \<Rightarrow> 32 word list list" where
  "blocks 0 ws = []"
| "blocks (Suc n) ws = take 16 ws # blocks n (drop 16 ws)"

definition H256_init :: hash_state where
  "H256_init =
     (0x6a09e667, 0xbb67ae85, 0x3c6ef372, 0xa54ff53a, 0x510e527f, 0x9b05688c, 0x1f83d9ab, 0x5be0cd19)"

definition sha256 :: "8 word list \<Rightarrow> hash_state" where
  "sha256 bs =
     (let ws = be_words (pad bs)
      in foldl compress H256_init (blocks (length ws div 16) ws))"

definition hex_digit :: "32 word \<Rightarrow> char" where
  "hex_digit n = ''0123456789abcdef'' ! unat (n AND 15)"

definition hex32 :: "32 word \<Rightarrow> string" where
  "hex32 w = map (\<lambda>i. hex_digit (drop_bit (4 * (7 - i)) w)) [0..<8]"

fun hexdigest :: "hash_state \<Rightarrow> string" where
  "hexdigest (a, b, c, d, e, f, g, h) =
     hex32 a @ hex32 b @ hex32 c @ hex32 d @ hex32 e @ hex32 f @ hex32 g @ hex32 h"

definition encode :: "string \<Rightarrow> 8 word list" where
  "encode s = map (\<lambda>c. of_char c) s"

text \<open>
  An f-string renders \<^verbatim>\<open>None\<close> as the four characters \<^verbatim>\<open>None\<close>.
\<close>

definition format_optional :: "string option \<Rightarrow> string" where
  "format_optional v = (case v of None \<Rightarrow> ''None'' | Some s \<Rightarrow> s)"

definition generate_id :: "PersonData \<Rightarrow> string" where
  "generate_id data =
     (let identifier =
            name data @ ''_'' @ format_optional (professional_title data) @ ''_''
              @ format_optional (company data)
      in take 12 (hexdigest (sha256 (encode identifier))))"

section \<open>Exceptions, module globals and the file system\<close>

text \<open>
  A raised exception is the left summand of a result; the argument of \<open>NameError\<close>
  and \<open>AttributeError\<close> is the name that was looked up, that of \<open>TypeError\<close> the
  keyword argument that the callee does not take.
\<close>

datatype error =
    NameError string
  | AttributeError string
  | TypeError string
  | ValueError string
  | OSError string
  | FileNotFoundError string
  | RequestException string

text \<open>
  The global names of the module \<^verbatim>\<open>crawler.py\<close>: what its \<^verbatim>\<open>import\<close> statements (lines
  1-8, 47-50, 178-179) and its \<^verbatim>\<open>class\<close> statements bind. A function body that reads a
  global name looks it up here when it runs; a name that is neither here nor a builtin
  raises \<^verbatim>\<open>NameError\<close>.
\<close>

definition crawler_globals :: "string list" where
  "crawler_globals =
     [''requests'', ''BeautifulSoup'', ''time'', ''urljoin'', ''re'', ''deque'', ''datetime'',
      ''timedelta'', ''threading'', ''RateLimiter'', ''dataclass'', ''List'', ''Optional'',
      ''json'', ''hashlib'', ''PersonData'', ''DataHandler'', ''EnhancedWebCrawler'',
      ''logging'', ''CrawlerLogger'']"

definition load_global :: "string list \<Rightarrow> string \<Rightarrow> error + unit" where
  "load_global globals n = (if n \<in> set globals then Inr () else Inl (NameError n))"

text \<open>
  The file system: the directories that exist (by name, without a trailing slash), the
  documents stored by path, and the paths at which the operating system refuses to
  create or write (\<open>denied\<close>). \<^verbatim>\<open>json.dump(sanitized_data.__dict__, f)\<close> writes the six
  fields of the record; the stored document is that record.
\<close>

record filesystem =
  dirs :: "string set"
  files :: "string \<rightharpoonup> PersonData"
  denied :: "string set"

definition rstrip_slash :: "string \<Rightarrow> string" where
  "rstrip_slash p = rev (dropWhile (\<lambda>ch. ch = CHR ''/'') (rev p))"

text \<open>
  \<^verbatim>\<open>os.path.dirname(p)\<close>: the part up to the last slash, without its trailing slashes
  unless it consists of slashes only; empty when \<open>p\<close> has no slash.
\<close>

definition os_path_dirname :: "string \<Rightarrow> string" where
  "os_path_dirname p =
     (let head = rev (dropWhile (\<lambda>ch. ch \<noteq> CHR ''/'') (rev p))
      in if head \<noteq> [] \<and> \<not> list_all (\<lambda>ch. ch = CHR ''/'') head then rstrip_slash head
         else head)"

text \<open>
  Whether a directory exists. The empty name is the current directory and a name of
  slashes only is the root; both exist.
\<close>

definition dir_exists :: "filesystem \<Rightarrow> string \<Rightarrow> bool" where
  "dir_exists fs d = (rstrip_slash d = [] \<or> rstrip_slash d \<in> dirs fs)"

text \<open>
  \<^verbatim>\<open>os.makedirs(path, exist_ok=True)\<close> creates the directory and every missing directory
  above it, and accepts one that exists. The empty path raises \<^verbatim>\<open>FileNotFoundError\<close>; a
  path that is denied, or that names a file, raises another \<^verbatim>\<open>OSError\<close>.
\<close>

definition path_ancestors :: "string \<Rightarrow> string list" where
  "path_ancestors path =
     filter (\<lambda>d. d \<noteq> [])
       (map (\<lambda>i. rstrip_slash (take i path))
          (filter (\<lambda>i. i = length path \<or> path ! i = CHR ''/'') [0..<Suc (length path)]))"

definition os_makedirs :: "filesystem \<Rightarrow> string \<Rightarrow> error + filesystem" where
  "os_makedirs fs path =
     (if path = [] then Inl (FileNotFoundError path)
      else if path \<in> denied fs \<or> files fs (rstrip_slash path) \<noteq> None then Inl (OSError path)
      else Inr (fs\<lparr>dirs := dirs fs \<union> set (path_ancestors path)\<rparr>))"

text \<open>\<^verbatim>\<open>os.path.join(a, b)\<close> for a relative \<open>b\<close>.\<close>

definition os_path_join :: "string \<Rightarrow> string \<Rightarrow> string" where
  "os_path_join a b = (if a = [] \<or> last a = CHR ''/'' then a @ b else a @ ''/'' @ b)"

text \<open>
  \<^verbatim>\<open>with open(file_path, 'w') as f: json.dump(doc, f)\<close>. \<^verbatim>\<open>open\<close> raises
  \<^verbatim>\<open>FileNotFoundError\<close> when the directory of the path does not exist, and another
  \<^verbatim>\<open>OSError\<close> when the path is denied or names a directory. Mode \<^verbatim>\<open>'w'\<close> truncates, so
  the document replaces whatever the path held.
\<close>

definition open_w_dump :: "filesystem \<Rightarrow> string \<Rightarrow> PersonData \<Rightarrow> error + filesystem" where
  "open_w_dump fs path doc =
     (if \<not> dir_exists fs (os_path_dirname path) then Inl (FileNotFoundError path)
      else if path \<in> denied fs \<or> rstrip_slash path \<in> dirs fs then Inl (OSError path)
      else Inr (fs\<lparr>files := (files fs)(path \<mapsto> doc)\<rparr>))"

section \<open>DataHandler (crawler.py, lines 61-110)\<close>

text \<open>
  The functions take the module's global names as \<open>globals\<close>; the program runs them
  with \<^const>\<open>crawler_globals\<close>. A \<^verbatim>\<open>DataHandler\<close> is its \<^verbatim>\<open>storage_path\<close>.
\<close>

definition ensure_storage_exists ::
    "string list \<Rightarrow> filesystem \<Rightarrow> string \<Rightarrow> error + filesystem" where
  "ensure_storage_exists globals fs storage_path =
     (case load_global globals ''os'' of
        Inl e \<Rightarrow> Inl e
      | Inr _ \<Rightarrow> os_makedirs fs storage_path)"

text \<open>\<^verbatim>\<open>DataHandler(storage_path)\<close>: the handler and the file system afterwards.\<close>

definition DataHandler_init ::
    "string list \<Rightarrow> filesystem \<Rightarrow> string \<Rightarrow> error + (string \<times> filesystem)" where
  "DataHandler_init globals fs storage_path =
     (case ensure_storage_exists globals fs storage_path of
        Inl e \<Rightarrow> Inl e
      | Inr fs' \<Rightarrow> Inr (storage_path, fs'))"

text \<open>
  \<^verbatim>\<open>save_person_data\<close> (lines 74-85); \<open>now\<close> is the clock reading inside
  \<^verbatim>\<open>sanitize_data\<close>. The result is the returned identifier and the file system.
\<close>

definition save_person_data ::
    "string list \<Rightarrow> int \<Rightarrow> filesystem \<Rightarrow> string \<Rightarrow> PersonData \<Rightarrow> error + (string \<times> filesystem)"
    where
  "save_person_data globals now fs storage_path data =
     (let person_id = generate_id data;
          sanitized_data = sanitize_data now data
      in case load_global globals ''os'' of
           Inl e \<Rightarrow> Inl e
         | Inr _ \<Rightarrow>
             (let file_path = os_path_join storage_path (person_id @ ''.json'')
              in case open_w_dump fs file_path sanitized_data of
                   Inl e \<Rightarrow> Inl e
                 | Inr fs' \<Rightarrow> Inr (person_id, fs')))"

section \<open>EnhancedWebCrawler (crawler.py, lines 115-173)\<close>

text \<open>
  What \<^verbatim>\<open>self.session.get(url)\<close> does is the environment's: it raises, or it returns a
  response with a status code and a body. Of the body the code reads the \<^verbatim>\<open>href\<close>
  attribute of every \<^verbatim>\<open>a\<close> element, in document order (\<^verbatim>\<open>soup.find_all('a')\<close>,
  \<^verbatim>\<open>link.get('href')\<close>), \<open>None\<close> for an element without the attribute.
\<close>

datatype http_result = Raises error | Response int "string option list"

record env =
  jitter :: "nat \<Rightarrow> nat"
  http_get :: "string \<Rightarrow> http_result"

text \<open>A source's result is a dict from field names to values.\<close>

datatype field_value = Str string | StrList "string list"

type_synonym info = "string \<rightharpoonup> field_value"

text \<open>
  \<^verbatim>\<open>parse_linkedin_results\<close> (lines 159-173). An element without \<^verbatim>\<open>href\<close> is tested as
  the empty string and never matches; the test is case-sensitive.
\<close>

definition parse_linkedin_results :: "string option list \<Rightarrow> info" where
  "parse_linkedin_results links =
     (let public_profiles =
            map the (filter (\<lambda>h. substring_in ''linkedin.com/in/'' (case h of None \<Rightarrow> [] | Some s \<Rightarrow> s))
                       links)
      in if public_profiles \<noteq> [] then [''public_links'' \<mapsto> StrList (take 1 public_profiles)]
         else Map.empty)"

definition search_url :: "string \<Rightarrow> string" where
  "search_url n = ''https://www.google.com/search?q=site:linkedin.com/in/ '' @ n"

text \<open>
  A method that calls \<^verbatim>\<open>wait_if_needed\<close> may never return (\<open>None\<close>); when it returns
  it raises (\<open>Inl\<close>) or yields its value with the clock and the limiter afterwards.
\<close>

type_synonym 'a outcome = "(error + ('a \<times> clock \<times> RateLimiter)) option"

definition search_linkedin :: "env \<Rightarrow> string \<Rightarrow> clock \<Rightarrow> RateLimiter \<Rightarrow> info outcome" where
  "search_linkedin ev n c rl =
     (case wait_if_needed (jitter ev) c rl of
        None \<Rightarrow> None
      | Some (c', rl') \<Rightarrow>
          Some (case http_get ev (search_url n) of
                  Raises e \<Rightarrow> Inl e
                | Response status_code links \<Rightarrow>
                    if status_code = 200 then Inr (parse_linkedin_results links, c', rl')
                    else Inr (Map.empty, c', rl')))"

text \<open>
  \<^verbatim>\<open>search_person\<close> calls three methods that the class does not define:
  \<^verbatim>\<open>search_github\<close>, \<^verbatim>\<open>search_scholar\<close> and \<^verbatim>\<open>combine_info\<close>. The class is a parameter that
  says for each of them whether it is defined and, if so, what it does; looking up a
  method that is not defined raises \<^verbatim>\<open>AttributeError\<close>. \<^verbatim>\<open>combine_info\<close> changes the
  record it is given in place; the model returns the record afterwards.
\<close>

record crawler_class =
  search_github :: "(env \<Rightarrow> string \<Rightarrow> clock \<Rightarrow> RateLimiter \<Rightarrow> info outcome) option"
  search_scholar :: "(env \<Rightarrow> string \<Rightarrow> clock \<Rightarrow> RateLimiter \<Rightarrow> info outcome) option"
  combine_info :: "(PersonData \<Rightarrow> info \<Rightarrow> info \<Rightarrow> info \<Rightarrow> error + PersonData) option"

text \<open>The class as \<^verbatim>\<open>crawler.py\<close> declares it.\<close>

definition EnhancedWebCrawler_class :: crawler_class where
  "EnhancedWebCrawler_class =
     \<lparr>search_github = None, search_scholar = None, combine_info = None\<rparr>"

definition call_source ::
    "(env \<Rightarrow> string \<Rightarrow> clock \<Rightarrow> RateLimiter \<Rightarrow> info outcome) option \<Rightarrow> string
      \<Rightarrow> env \<Rightarrow> string \<Rightarrow> clock \<Rightarrow> RateLimiter \<Rightarrow> info outcome" where
  "call_source m attr ev n c rl =
     (case m of None \<Rightarrow> Some (Inl (AttributeError attr)) | Some f \<Rightarrow> f ev n c rl)"

text \<open>
  \<^verbatim>\<open>search_person\<close> (lines 126-142). The crawler is its limiter and its handler's
  storage path. The value is the returned record with the clock, the limiter and the
  file system afterwards; the identifier that \<^verbatim>\<open>save_person_data\<close> returns is dropped
  (line 140), and the record returned is \<^verbatim>\<open>person_data\<close> (line 142).

  The body is in two parts. \<open>search_person_remaining\<close> is lines 133-142: what follows the
  LinkedIn lookup, given the working record and the LinkedIn result.
\<close>

definition search_person_remaining ::
    "crawler_class \<Rightarrow> string list \<Rightarrow> env \<Rightarrow> string \<Rightarrow> filesystem \<Rightarrow> string
      \<Rightarrow> PersonData \<Rightarrow> info \<Rightarrow> clock \<Rightarrow> RateLimiter
      \<Rightarrow> (error + (PersonData \<times> clock \<times> RateLimiter \<times> filesystem)) option" where
  "search_person_remaining cls globals ev storage_path fs n person_data linkedin_info c1 rl1 =
     (case call_source (search_github cls) ''search_github'' ev n c1 rl1 of
        None \<Rightarrow> None
      | Some (Inl e) \<Rightarrow> Some (Inl e)
      | Some (Inr (github_info, c2, rl2)) \<Rightarrow>
     (case call_source (search_scholar cls) ''search_scholar'' ev n c2 rl2 of
        None \<Rightarrow> None
      | Some (Inl e) \<Rightarrow> Some (Inl e)
      | Some (Inr (scholar_info, c3, rl3)) \<Rightarrow>
     (case combine_info cls of
        None \<Rightarrow> Some (Inl (AttributeError ''combine_info''))
      | Some combine \<Rightarrow>
     (case combine person_data linkedin_info github_info scholar_info of
        Inl e \<Rightarrow> Some (Inl e)
      | Inr person_data' \<Rightarrow>
     (case save_person_data globals (now_us c3) fs storage_path person_data' of
        Inl e \<Rightarrow> Some (Inl e)
      | Inr (person_id, fs') \<Rightarrow> Some (Inr (person_data', c3, rl3, fs')))))))"

definition search_person ::
    "crawler_class \<Rightarrow> string list \<Rightarrow> env \<Rightarrow> string \<Rightarrow> clock \<Rightarrow> RateLimiter \<Rightarrow> filesystem
      \<Rightarrow> string \<Rightarrow> (error + (PersonData \<times> clock \<times> RateLimiter \<times> filesystem)) option" where
  "search_person cls globals ev storage_path c rl fs n =
     (case wait_if_needed (jitter ev) c rl of
        None \<Rightarrow> None
      | Some (c0, rl0) \<Rightarrow>
          (let person_data = PersonData_init n
           in case search_linkedin ev n c0 rl0 of
                None \<Rightarrow> None
              | Some (Inl e) \<Rightarrow> Some (Inl e)
              | Some (Inr (linkedin_info, c1, rl1)) \<Rightarrow>
                  search_person_remaining cls globals ev storage_path fs n
                    person_data linkedin_info c1 rl1))"

text \<open>
  \<^verbatim>\<open>EnhancedWebCrawler.__init__\<close> (lines 116-124) takes no parameter besides \<^verbatim>\<open>self\<close>.
  A call binds its keyword arguments to the parameters before the body runs, and one
  that names no parameter raises \<^verbatim>\<open>TypeError\<close>.
\<close>

definition EnhancedWebCrawler_init_params :: "string list" where
  "EnhancedWebCrawler_init_params = []"

definition bind_kwargs :: "string list \<Rightarrow> (string \<times> string) list \<Rightarrow> error + unit" where
  "bind_kwargs params kwargs =
     (case filter (\<lambda>kv. fst kv \<notin> set params) kwargs of
        [] \<Rightarrow> Inr ()
      | kv # _ \<Rightarrow> Inl (TypeError (fst kv)))"

text \<open>
  \<^verbatim>\<open>EnhancedWebCrawler(**kwargs)\<close>: the limiter of line 117 (\<^verbatim>\<open>burst_limit\<close> at its
  default 10), the handler of line 118 (\<^verbatim>\<open>storage_path\<close> at its default), and the file
  system afterwards. The session of lines 119-124 carries constant headers and is
  not part of the state.
\<close>

definition EnhancedWebCrawler_new ::
    "string list \<Rightarrow> filesystem \<Rightarrow> (string \<times> string) list
      \<Rightarrow> error + ((RateLimiter \<times> string) \<times> filesystem)" where
  "EnhancedWebCrawler_new globals fs kwargs =
     (case bind_kwargs EnhancedWebCrawler_init_params kwargs of
        Inl e \<Rightarrow> Inl e
      | Inr _ \<Rightarrow>
          (let rate_limiter = RateLimiter_init 60 10
           in case DataHandler_init globals fs ''data/'' of
                Inl e \<Rightarrow> Inl e
              | Inr (data_handler, fs') \<Rightarrow> Inr ((rate_limiter, data_handler), fs')))"

section \<open>The entry point (main.py)\<close>

text \<open>
  \<open>environ\<close> is the process environment after \<^verbatim>\<open>load_dotenv()\<close>; \<^verbatim>\<open>os.getenv\<close> is
  \<open>None\<close> for a variable that is not set. \<^verbatim>\<open>all\<close> tests truth: \<open>None\<close> and the empty
  string are false. \<^verbatim>\<open>InfoBot\<close> is not part of these sources: \<open>run_bot\<close> stands for
  \<^verbatim>\<open>InfoBot(BOT_TOKEN, crawler)\<close> followed by \<^verbatim>\<open>bot.run()\<close>.
\<close>

definition truthy :: "string option \<Rightarrow> bool" where
  "truthy v = (case v of None \<Rightarrow> False | Some s \<Rightarrow> s \<noteq> [])"

definition main ::
    "(string \<rightharpoonup> string) \<Rightarrow> filesystem
      \<Rightarrow> (string \<Rightarrow> (RateLimiter \<times> string) \<times> filesystem \<Rightarrow> error + 'r) \<Rightarrow> error + 'r" where
  "main environ fs run_bot =
     (let BOT_TOKEN = environ ''TELEGRAM_BOT_TOKEN'';
          GOOGLE_API_KEY = environ ''GOOGLE_API_KEY'';
          SEARCH_ENGINE_ID = environ ''SEARCH_ENGINE_ID''
      in if \<not> list_all truthy [BOT_TOKEN, GOOGLE_API_KEY, SEARCH_ENGINE_ID]
         then Inl (ValueError ''Missing required API keys in environment variables'')
         else
           case EnhancedWebCrawler_new crawler_globals fs
                  [(''google_api_key'', the GOOGLE_API_KEY),
                   (''search_engine_id'', the SEARCH_ENGINE_ID)] of
             Inl e \<Rightarrow> Inl e
           | Inr crawler \<Rightarrow> run_bot (the BOT_TOKEN) crawler)"

section \<open>Fixtures\<close>

text \<open>A file system, a clock and two environments for the closed instances below.\<close>

definition fs0 :: filesystem where
  "fs0 = \<lparr>dirs = {}, files = Map.empty, denied = {}\<rparr>"

definition clock0 :: clock where
  "clock0 = \<lparr>now_us = 0, naps = 0\<rparr>"

definition env_status :: "int \<Rightarrow> string option list \<Rightarrow> env" where
  "env_status status links = \<lparr>jitter = (\<lambda>n. 0), http_get = (\<lambda>url. Response status links)\<rparr>"

definition env_down :: env where
  "env_down = \<lparr>jitter = (\<lambda>n. 0), http_get = (\<lambda>url. Raises (RequestException ''connection''))\<rparr>"

section \<open>The limiter's invariant\<close>

text \<open>
  What holds between two calls of a sequence whose last clock reading was \<open>p\<close>: the
  accepted timestamps are ascending and none is later than \<open>p\<close>, the window holds
  exactly those of the last 60 seconds, and both caps hold at \<open>p\<close>.
\<close>

definition limiter_inv :: "int \<Rightarrow> int \<Rightarrow> int \<Rightarrow> int list \<times> RateLimiter \<Rightarrow> bool" where
  "limiter_inv rpm bl p s =
     (case s of (acc, rl) \<Rightarrow>
        requests_per_minute rl = rpm \<and> burst_limit rl = bl \<and>
        sorted acc \<and> list_all (\<lambda>t. t \<le> p) acc \<and>
        requests rl = filter (\<lambda>t. p - 60000000 \<le> t) acc \<and>
        int (length (requests rl)) \<le> rpm \<and>
        int (length (filter (\<lambda>t. p - 1000000 < t) acc)) \<le> bl)"

section \<open>Properties of the rate limiter\<close>

lemma evict_dropWhile: "evict m rs = dropWhile (\<lambda>r. r < m) rs"
  by (induction rs) auto


lemma evict_sorted: "sorted xs \<Longrightarrow> evict m xs = filter (\<lambda>r. m \<le> r) xs"
proof (induction xs)
  case Nil then show ?case by simp
next
  case (Cons x xs)
  show ?case
  proof (cases "x < m")
    case True with Cons show ?thesis by simp
  next
    case False
    with Cons.prems have "\<forall>y\<in>set (x # xs). m \<le> y" by auto
    then have "filter (\<lambda>r. m \<le> r) (x # xs) = x # xs" by (simp only: filter_True)
    with False show ?thesis by simp
  qed
qed

lemma limiter_inv_step:
  assumes "limiter_inv rpm bl p (acc, rl)" "p \<le> now"
    and "can_make_request now rl = (ok, rl')"
  shows "limiter_inv rpm bl now (if ok then acc @ [now] else acc, rl')"
proof -
  from assms(1) have rpm: "requests_per_minute rl = rpm" and bl: "burst_limit rl = bl"
    and so: "sorted acc" and le: "\<forall>t\<in>set acc. t \<le> p"
    and rq: "requests rl = filter (\<lambda>t. p - 60000000 \<le> t) acc"
    and c1: "int (length (requests rl)) \<le> rpm"
    and c2: "int (length (filter (\<lambda>t. p - 1000000 < t) acc)) \<le> bl"
    by (auto simp: limiter_inv_def list_all_iff)
  let ?rs = "evict (now - 60000000) (requests rl)"
  have srq: "sorted (requests rl)" using so rq by (simp add: sorted_wrt_filter)
  have rs: "?rs = filter (\<lambda>t. now - 60000000 \<le> t) acc"
  proof -
    have "?rs = filter (\<lambda>t. now - 60000000 \<le> t) (filter (\<lambda>t. p - 60000000 \<le> t) acc)"
      using evict_sorted[OF srq] rq by simp
    also have "\<dots> = filter (\<lambda>t. now - 60000000 \<le> t) acc"
      using assms(2) by (simp, intro filter_cong, auto)
    finally show ?thesis .
  qed
  have len_rs: "length ?rs \<le> length (requests rl)"
    by (simp add: evict_sorted[OF srq])
  have rec: "filter (\<lambda>req. now - 1000000 < req) ?rs = filter (\<lambda>t. now - 1000000 < t) acc"
    unfolding rs by (simp, rule filter_cong, auto)
  have mono: "length (filter (\<lambda>t. now - 1000000 < t) acc) \<le> length (filter (\<lambda>t. p - 1000000 < t) acc)"
  proof -
    have "filter (\<lambda>t. now - 1000000 < t) acc = filter (\<lambda>t. now - 1000000 < t) (filter (\<lambda>t. p - 1000000 < t) acc)"
      using assms(2) by (simp, intro filter_cong, auto)
    then show ?thesis by (metis length_filter_le)
  qed
  have le': "\<forall>t\<in>set acc. t \<le> now" using le assms(2) by auto
  show ?thesis
  proof (cases ok)
    case False
    then have "rl' = rl\<lparr>requests := ?rs\<rparr>"
      using assms(3) by (auto simp: can_make_request_def Let_def split: if_splits)
    then show ?thesis using False rpm bl so le' rs len_rs c1 c2 mono
      by (auto simp: limiter_inv_def list_all_iff)
  next
    case True
    then have rl': "rl' = rl\<lparr>requests := ?rs @ [now]\<rparr>"
      and a1: "int (length ?rs) < rpm"
      and a2: "int (length (filter (\<lambda>req. now - 1000000 < req) ?rs)) < bl"
      using assms(3) rpm bl by (auto simp: can_make_request_def Let_def split: if_splits)
    have "sorted (acc @ [now])" using so le' by (simp add: sorted_append)
    then show ?thesis using True rl' rpm bl le' rs a1 a2 rec
      by (auto simp: limiter_inv_def list_all_iff)
  qed
qed

lemma limiter_inv_call_seq:
  "limiter_inv rpm bl p s \<Longrightarrow> sorted (p # ts) \<Longrightarrow> limiter_inv rpm bl (last (p # ts)) (call_seq ts s)"
proof (induction ts arbitrary: p s)
  case Nil then show ?case by simp
next
  case (Cons now ts)
  obtain acc rl where s: "s = (acc, rl)" by (cases s)
  obtain ok rl' where c: "can_make_request now rl = (ok, rl')" by (cases "can_make_request now rl")
  have "limiter_inv rpm bl now (if ok then acc @ [now] else acc, rl')"
    using limiter_inv_step[OF _ _ c] Cons.prems s by auto
  moreover have "sorted (now # ts)" using Cons.prems by simp
  ultimately have "limiter_inv rpm bl (last (now # ts)) (call_seq ts (if ok then acc @ [now] else acc, rl'))"
    by (rule Cons.IH)
  then show ?case using s c by simp
qed

lemma limiter_inv_init: "0 \<le> rpm \<Longrightarrow> 0 \<le> bl \<Longrightarrow> limiter_inv rpm bl p ([], RateLimiter_init rpm bl)"
  by (simp add: limiter_inv_def RateLimiter_init_def)

text \<open>
  Claim C2, as amended. Take any sequence of calls of \<^verbatim>\<open>can_make_request\<close> on a fresh
  limiter with non-negative caps, whose clock readings (\<^verbatim>\<open>datetime.now()\<close>, line 18) do
  not go backwards. At every point of the sequence (after the \<open>n\<close>-th call, whose reading
  is \<open>ts ! (n - 1)\<close>) the accepted calls with a timestamp in the trailing 60 seconds are
  at most \<^verbatim>\<open>requests_per_minute\<close>, and those with a timestamp in the trailing second
  are at most \<^verbatim>\<open>burst_limit\<close>.
\<close>

theorem can_make_request_caps:
  assumes "sorted ts" "0 < n" "n \<le> length ts" "0 \<le> rpm" "0 \<le> bl"
  shows "int (accepted_in_minute (ts ! (n - 1)) (fst (call_seq (take n ts) ([], RateLimiter_init rpm bl)))) \<le> rpm
       \<and> int (accepted_in_second (ts ! (n - 1)) (fst (call_seq (take n ts) ([], RateLimiter_init rpm bl)))) \<le> bl"
proof -
  let ?us = "take n ts"
  from assms have ne: "?us \<noteq> []" by auto
  then obtain u us where us: "?us = u # us" by (cases ?us) auto
  have so: "sorted (u # u # us)" using assms(1) us by (metis sorted_wrt_take sorted2 order_refl)
  have lst: "last ?us = ts ! (n - 1)" using assms ne by (simp add: last_conv_nth)
  have "limiter_inv rpm bl (last (u # u # us)) (call_seq (u # us) ([], RateLimiter_init rpm bl))"
    by (rule limiter_inv_call_seq[OF limiter_inv_init[OF assms(4,5)] so])
  then have inv: "limiter_inv rpm bl (ts ! (n - 1)) (call_seq ?us ([], RateLimiter_init rpm bl))"
    using us lst by simp
  obtain acc rl where r: "call_seq ?us ([], RateLimiter_init rpm bl) = (acc, rl)" by (cases "call_seq ?us ([], RateLimiter_init rpm bl)")
  from inv r have le: "\<forall>t\<in>set acc. t \<le> ts ! (n - 1)"
    and rq: "requests rl = filter (\<lambda>t. ts ! (n - 1) - 60000000 \<le> t) acc"
    and c1: "int (length (requests rl)) \<le> rpm"
    and c2: "int (length (filter (\<lambda>t. ts ! (n - 1) - 1000000 < t) acc)) \<le> bl"
    by (auto simp: limiter_inv_def list_all_iff)
  have "filter (\<lambda>t. ts ! (n - 1) - 60000000 \<le> t \<and> t \<le> ts ! (n - 1)) acc = filter (\<lambda>t. ts ! (n - 1) - 60000000 \<le> t) acc"
    using le by (intro filter_cong) auto
  moreover have "filter (\<lambda>t. ts ! (n - 1) - 1000000 < t \<and> t \<le> ts ! (n - 1)) acc = filter (\<lambda>t. ts ! (n - 1) - 1000000 < t) acc"
    using le by (intro filter_cong) auto
  ultimately show ?thesis using r rq c1 c2 by (simp add: accepted_in_minute_def accepted_in_second_def)
qed

theorem can_make_request_caps_witness:
  "fst (call_seq [0, 500000, 1000000, 61000000] ([], RateLimiter_init 2 1))
     = [0, 1000000, 61000000]
   \<and> int (accepted_in_minute 61000000
          (fst (call_seq [0, 500000, 1000000, 61000000] ([], RateLimiter_init 2 1)))) \<le> 2
   \<and> int (accepted_in_second 61000000
          (fst (call_seq [0, 500000, 1000000, 61000000] ([], RateLimiter_init 2 1)))) \<le> 1"
proof -
  have run: "fst (call_seq [0, 500000, 1000000, 61000000] ([], RateLimiter_init 2 1))
      = [0, 1000000, 61000000]"
    by (simp add: can_make_request_def RateLimiter_init_def)
  have "sorted [0, 500000, 1000000, 61000000 :: int]" by simp
  from can_make_request_caps [OF this, of 4 2 1] run show ?thesis by simp
qed

text \<open>
  Claim C2 as stated, for every sequence of calls, fails. The readings come from the
  wall clock, which can be set back: at readings 0 s, 1 s, 100 s and then 50 s a limiter
  with \<^verbatim>\<open>requests_per_minute = 2\<close> accepts all four calls (the call at 100 s evicts the
  first two timestamps), and three accepted timestamps lie in the 60 seconds that end
  at the last reading.
\<close>

theorem can_make_request_clock_back_counterexample:
  "fst (call_seq [0, 1000000, 100000000, 50000000] ([], RateLimiter_init 2 10))
     = [0, 1000000, 100000000, 50000000]
   \<and> accepted_in_minute 50000000
        (fst (call_seq [0, 1000000, 100000000, 50000000] ([], RateLimiter_init 2 10))) = 3
   \<and> \<not> int (accepted_in_minute 50000000
        (fst (call_seq [0, 1000000, 100000000, 50000000] ([], RateLimiter_init 2 10)))) \<le> 2"
proof -
  have run: "fst (call_seq [0, 1000000, 100000000, 50000000] ([], RateLimiter_init 2 10))
      = [0, 1000000, 100000000, 50000000]"
    by (simp add: can_make_request_def RateLimiter_init_def)
  show ?thesis
    unfolding run by (simp add: accepted_in_minute_def)
qed

section \<open>Properties of the blocking wait\<close>














section \<open>Properties of the privacy filter\<close>

lemma starts_with_iff: "starts_with d s = (\<exists>q. s = d @ q)"
  by (induction d s rule: starts_with.induct) auto

lemma substring_in_iff: "substring_in d s = (\<exists>p q. s = p @ d @ q)"
proof (induction s)
  case Nil then show ?case by simp
next
  case (Cons x xs)
  show ?case
  proof
    assume "substring_in d (x # xs)"
    then consider "starts_with d (x # xs)" | "substring_in d xs" by auto
    then show "\<exists>p q. x # xs = p @ d @ q"
    proof cases
      case 1 then obtain q where "x # xs = [] @ d @ q" by (auto simp: starts_with_iff)
      then show ?thesis by blast
    next
      case 2 then obtain p q where "xs = p @ d @ q" using Cons by auto
      then have "x # xs = (x # p) @ d @ q" by simp
      then show ?thesis by blast
    qed
  next
    assume "\<exists>p q. x # xs = p @ d @ q"
    then obtain p q where pq: "x # xs = p @ d @ q" by blast
    show "substring_in d (x # xs)"
    proof (cases p)
      case Nil
      with pq have "\<exists>q. x # xs = d @ q" by auto
      then have "starts_with d (x # xs)" by (simp only: starts_with_iff)
      then show ?thesis by simp
    next
      case (Cons y ys) with pq have "xs = ys @ d @ q" by simp
      then show ?thesis using Cons.IH by auto
    qed
  qed
qed

text \<open>
  Claim C4. \<^verbatim>\<open>is_safe_link\<close> is a function of the reference alone. It holds exactly when
  the lowercased reference contains one of the four markers as a substring; two
  references that differ only in the case of letters get the same answer; the empty
  string is rejected.
\<close>

theorem is_safe_link_allowlist:
  "(is_safe_link link \<longleftrightarrow>
      (\<exists>p q. lower link = p @ ''linkedin.com/in/'' @ q)
    \<or> (\<exists>p q. lower link = p @ ''github.com/'' @ q)
    \<or> (\<exists>p q. lower link = p @ ''scholar.google.com/'' @ q)
    \<or> (\<exists>p q. lower link = p @ ''twitter.com/'' @ q))
   \<and> (lower a = lower b \<longrightarrow> is_safe_link a = is_safe_link b)
   \<and> \<not> is_safe_link []"
  by (simp add: is_safe_link_def allowed_domains_def substring_in_iff lower_def)

theorem is_safe_link_allowlist_witness:
  "is_safe_link ''LINKEDIN.com/in/jdoe''
   \<and> is_safe_link ''LINKEDIN.com/in/jdoe'' = is_safe_link ''linkedin.COM/IN/Jdoe''
   \<and> \<not> is_safe_link ''badsite.com/jane''
   \<and> \<not> is_safe_link []"
proof -
  have l: "lower ''LINKEDIN.com/in/jdoe'' = lower ''linkedin.COM/IN/Jdoe''"
    by (simp add: lower_def lower_char_def)
  have y: "lower ''LINKEDIN.com/in/jdoe'' = [] @ ''linkedin.com/in/'' @ ''jdoe''"
    by (simp add: lower_def lower_char_def)
  have n: "\<not> is_safe_link ''badsite.com/jane''"
    by (simp add: is_safe_link_def allowed_domains_def lower_def lower_char_def)
  from is_safe_link_allowlist [of "''LINKEDIN.com/in/jdoe''" "''LINKEDIN.com/in/jdoe''" "''linkedin.COM/IN/Jdoe''"]
    l y n show ?thesis by blast
qed

section \<open>Properties of the record identifier\<close>

lemma length_hex32: "length (hex32 w) = 8"
  by (simp add: hex32_def)

lemma length_hexdigest: "length (hexdigest H) = 64"
  by (cases H rule: hexdigest.cases) (simp add: length_hex32)

text \<open>
  Claim C5. \<^verbatim>\<open>generate_id\<close> is a function of the identity triple: records with the same
  \<^verbatim>\<open>name\<close>, \<^verbatim>\<open>professional_title\<close> and \<^verbatim>\<open>company\<close> get the same identifier. The
  identifier has 12 characters, and changing \<^verbatim>\<open>education\<close>, \<^verbatim>\<open>public_links\<close> or
  \<^verbatim>\<open>last_updated\<close> does not change it.
\<close>

theorem generate_id_identity_triple:
  "(name a = name b \<and> professional_title a = professional_title b \<and> company a = company b
      \<longrightarrow> generate_id a = generate_id b)
   \<and> length (generate_id a) = 12
   \<and> generate_id (a\<lparr>education := e, public_links := l, last_updated := u\<rparr>) = generate_id a"
  by (simp add: generate_id_def length_hexdigest)

theorem generate_id_identity_triple_witness:
  "generate_id \<lparr>name = ''Jane Doe'', professional_title = Some ''Engineer'', company = None,
       education = Some [''MIT''], public_links = Some [''github.com/janedoe''],
       last_updated = Some 5\<rparr>
     = generate_id \<lparr>name = ''Jane Doe'', professional_title = Some ''Engineer'', company = None,
       education = None, public_links = None, last_updated = None\<rparr>
   \<and> length (generate_id \<lparr>name = ''Jane Doe'', professional_title = Some ''Engineer'',
       company = None, education = Some [''MIT''], public_links = Some [''github.com/janedoe''],
       last_updated = Some 5\<rparr>) = 12"
proof -
  let ?a = "\<lparr>name = ''Jane Doe'', professional_title = Some ''Engineer'', company = None,
       education = Some [''MIT''], public_links = Some [''github.com/janedoe''],
       last_updated = Some 5\<rparr>"
  let ?b = "\<lparr>name = ''Jane Doe'', professional_title = Some ''Engineer'', company = None,
       education = None, public_links = None, last_updated = None\<rparr>"
  have h: "name ?a = name ?b \<and> professional_title ?a = professional_title ?b
      \<and> company ?a = company ?b"
    by simp
  from generate_id_identity_triple [of ?a ?b] h show ?thesis by blast
qed

text \<open>
  The embedded hash on a concrete record: \<^verbatim>\<open>PersonData(name="Jane Doe")\<close> is hashed as
  \<^verbatim>\<open>Jane Doe_None_None\<close>, whose SHA-256 digest starts \<^verbatim>\<open>2eece3600413\<close>.
\<close>

lemma generate_id_jane_doe: "generate_id (PersonData_init ''Jane Doe'') = ''2eece3600413''"
  by code_simp

section \<open>The missing import\<close>

lemma os_not_imported: "load_global crawler_globals ''os'' = Inl (NameError ''os'')"
  by (simp add: load_global_def crawler_globals_def)

text \<open>
  Claim C6. The claim is that constructing \<^verbatim>\<open>DataHandler(storage_path)\<close> never raises and
  leaves the storage root in existence. In the program \<^verbatim>\<open>ensure_storage_exists\<close> reads the
  global name \<^verbatim>\<open>os\<close>, which \<^verbatim>\<open>crawler.py\<close> never imports: the constructor raises
  \<^verbatim>\<open>NameError\<close> for every path and every file system, and creates nothing.
\<close>

theorem DataHandler_init_NameError:
  "DataHandler_init crawler_globals fs storage_path = Inl (NameError ''os'')"
  by (simp add: DataHandler_init_def ensure_storage_exists_def os_not_imported)

text \<open>
  With \<^verbatim>\<open>os\<close> among the module's globals the constructor does what the claim says,
  wherever the operating system allows the directory.
\<close>

lemma rstrip_slash_ancestor: "rstrip_slash path \<noteq> [] \<Longrightarrow> rstrip_slash path \<in> set (path_ancestors path)"
  by (auto simp: path_ancestors_def intro!: image_eqI [where x = "length path"])

lemma DataHandler_init_with_os:
  assumes "''os'' \<in> set globals" "storage_path \<noteq> []" "storage_path \<notin> denied fs"
    and "files fs (rstrip_slash storage_path) = None"
  shows "\<exists>fs'. DataHandler_init globals fs storage_path = Inr (storage_path, fs')
           \<and> dir_exists fs' storage_path"
  using assms rstrip_slash_ancestor [of storage_path]
  by (auto simp: DataHandler_init_def ensure_storage_exists_def load_global_def os_makedirs_def
        dir_exists_def)

text \<open>
  Claim C8. The claim is that \<^verbatim>\<open>save_person_data\<close> stores the sanitized copy under the
  record's identifier and returns the identifier. In the program it reads the global
  name \<^verbatim>\<open>os\<close> (line 81) before it opens the file, and \<^verbatim>\<open>crawler.py\<close> never imports it:
  the call raises \<^verbatim>\<open>NameError\<close> for every record and stores nothing.
\<close>

theorem save_person_data_NameError:
  "save_person_data crawler_globals now fs storage_path data = Inl (NameError ''os'')"
  by (simp add: save_person_data_def Let_def os_not_imported)

text \<open>
  With \<^verbatim>\<open>os\<close> among the module's globals, a storage directory that exists and a path the
  operating system lets it write, \<^verbatim>\<open>save_person_data\<close> stores the sanitized copy under
  the identifier, replacing what the path held, and returns the identifier.
\<close>

lemma sanitize_data_safe:
  "public_links (sanitize_data now data) = Some ls \<Longrightarrow> list_all is_safe_link ls"
  by (auto simp: sanitize_data_def list_all_iff)

lemma sanitize_data_stamped: "last_updated (sanitize_data now data) = Some now"
  by (simp add: sanitize_data_def)

lemma save_person_data_with_os:
  assumes "''os'' \<in> set globals"
    and "dir_exists fs (os_path_dirname (os_path_join storage_path (generate_id data @ ''.json'')))"
    and "os_path_join storage_path (generate_id data @ ''.json'') \<notin> denied fs"
    and "rstrip_slash (os_path_join storage_path (generate_id data @ ''.json'')) \<notin> dirs fs"
  shows "save_person_data globals now fs storage_path data
           = Inr (generate_id data,
                  fs\<lparr>files := (files fs)(os_path_join storage_path (generate_id data @ ''.json'')
                                  \<mapsto> sanitize_data now data)\<rparr>)"
  using assms by (simp add: save_person_data_def Let_def load_global_def open_w_dump_def)

text \<open>
  The write needs the storage directory: on a file system without it \<^verbatim>\<open>open\<close> raises
  \<^verbatim>\<open>FileNotFoundError\<close>, and after \<^verbatim>\<open>os.makedirs('data/', exist_ok=True)\<close> it succeeds.
\<close>

lemma open_w_dump_without_directory:
  "open_w_dump fs0 (os_path_join ''data/'' ''x.json'') doc
     = Inl (FileNotFoundError ''data/x.json'')"
  by (simp add: fs0_def rstrip_slash_def dir_exists_def open_w_dump_def os_path_join_def
        os_path_dirname_def)

lemma open_w_dump_after_makedirs:
  "\<exists>fs'. os_makedirs fs0 ''data/'' = Inr fs' \<and> dir_exists fs' ''data/''
     \<and> (\<exists>fs''. open_w_dump fs' (os_path_join ''data/'' ''x.json'') doc = Inr fs''
           \<and> files fs'' ''data/x.json'' = Some doc)"
  by (simp add: os_makedirs_def fs0_def path_ancestors_def rstrip_slash_def dir_exists_def
        open_w_dump_def os_path_join_def os_path_dirname_def)

section \<open>Failures of a source\<close>

lemma wait_if_needed_immediate:
  "fst (can_make_request (now_us c) rl) \<Longrightarrow>
     wait_if_needed j c rl = Some (c, snd (can_make_request (now_us c) rl))"
  by (subst wait_if_needed.simps) simp

lemma fresh_wait:
  "wait_if_needed j clock0 (RateLimiter_init 60 10)
     = Some (clock0, \<lparr>requests_per_minute = 60, burst_limit = 10, requests = [0]\<rparr>)"
  by (subst wait_if_needed_immediate)
     (simp_all add: can_make_request_def RateLimiter_init_def clock0_def)

lemma second_wait:
  "wait_if_needed j clock0 \<lparr>requests_per_minute = 60, burst_limit = 10, requests = [0]\<rparr>
     = Some (clock0, \<lparr>requests_per_minute = 60, burst_limit = 10, requests = [0, 0]\<rparr>)"
  by (subst wait_if_needed_immediate)
     (simp_all add: can_make_request_def clock0_def)

lemma search_linkedin_result:
  assumes "wait_if_needed (jitter ev) c rl = Some (c', rl')"
  shows "search_linkedin ev n c rl =
           Some (case http_get ev (search_url n) of
                   Raises e \<Rightarrow> Inl e
                 | Response status_code links \<Rightarrow>
                     if status_code = 200 then Inr (parse_linkedin_results links, c', rl')
                     else Inr (Map.empty, c', rl'))"
  using assms by (simp add: search_linkedin_def)

lemma search_person_linkedin_raises:
  assumes "wait_if_needed (jitter ev) c rl = Some (c0, rl0)"
    and "search_linkedin ev n c0 rl0 = Some (Inl e)"
  shows "search_person cls globals ev sp c rl fs n = Some (Inl e)"
  using assms by (simp add: search_person_def Let_def)

lemma search_person_linkedin_returns:
  assumes "wait_if_needed (jitter ev) c rl = Some (c0, rl0)"
    and "search_linkedin ev n c0 rl0 = Some (Inr (li, c1, rl1))"
  shows "search_person cls globals ev sp c rl fs n
           = search_person_remaining cls globals ev sp fs n (PersonData_init n) li c1 rl1"
  using assms by (simp add: search_person_def Let_def)

lemma search_person_remaining_no_github:
  "search_github cls = None \<Longrightarrow>
     search_person_remaining cls globals ev sp fs n p li c rl
       = Some (Inl (AttributeError ''search_github''))"
  by (simp add: search_person_remaining_def call_source_def)

text \<open>
  Claim C1, as amended. A source lookup that gets a non-success status contributes no
  fields and does not abort the search: \<^verbatim>\<open>search_linkedin\<close> returns the empty dict without
  raising, and \<^verbatim>\<open>search_person\<close> carries on with its remaining steps (lines 133-142) on
  that empty result. A lookup whose request raises is not recovered: the exception
  leaves \<^verbatim>\<open>search_linkedin\<close>, and it leaves \<^verbatim>\<open>search_person\<close>, which returns no record,
  whatever the class defines and whatever the name is.
\<close>

theorem source_failure_propagates:
  "(wait_if_needed (jitter ev) c rl = Some (c', rl')
      \<and> http_get ev (search_url n) = Response status links \<and> status \<noteq> 200
      \<longrightarrow> search_linkedin ev n c rl = Some (Inr (Map.empty, c', rl')))
   \<and> (wait_if_needed (jitter ev) c0 rl0 = Some (c, rl)
      \<and> wait_if_needed (jitter ev) c rl = Some (c', rl')
      \<and> http_get ev (search_url n) = Response status links \<and> status \<noteq> 200
      \<longrightarrow> search_person cls globals ev sp c0 rl0 fs n
            = search_person_remaining cls globals ev sp fs n (PersonData_init n) Map.empty c' rl')
   \<and> (wait_if_needed (jitter ev) c rl = Some (c', rl')
      \<and> http_get ev (search_url n) = Raises e
      \<longrightarrow> search_linkedin ev n c rl = Some (Inl e))
   \<and> (wait_if_needed (jitter ev) c0 rl0 = Some (c, rl)
      \<and> wait_if_needed (jitter ev) c rl = Some (c', rl')
      \<and> http_get ev (search_url n) = Raises e
      \<longrightarrow> search_person cls globals ev sp c0 rl0 fs n = Some (Inl e))"
proof (intro conjI impI)
  assume "wait_if_needed (jitter ev) c rl = Some (c', rl')
      \<and> http_get ev (search_url n) = Response status links \<and> status \<noteq> 200"
  then show "search_linkedin ev n c rl = Some (Inr (Map.empty, c', rl'))"
    by (simp add: search_linkedin_result)
next
  assume a: "wait_if_needed (jitter ev) c0 rl0 = Some (c, rl)
      \<and> wait_if_needed (jitter ev) c rl = Some (c', rl')
      \<and> http_get ev (search_url n) = Response status links \<and> status \<noteq> 200"
  then have "search_linkedin ev n c rl = Some (Inr (Map.empty, c', rl'))"
    by (simp add: search_linkedin_result)
  with a show "search_person cls globals ev sp c0 rl0 fs n
      = search_person_remaining cls globals ev sp fs n (PersonData_init n) Map.empty c' rl'"
    by (intro search_person_linkedin_returns) simp_all
next
  assume "wait_if_needed (jitter ev) c rl = Some (c', rl')
      \<and> http_get ev (search_url n) = Raises e"
  then show "search_linkedin ev n c rl = Some (Inl e)"
    by (simp add: search_linkedin_result)
next
  assume a: "wait_if_needed (jitter ev) c0 rl0 = Some (c, rl)
      \<and> wait_if_needed (jitter ev) c rl = Some (c', rl')
      \<and> http_get ev (search_url n) = Raises e"
  then have "search_linkedin ev n c rl = Some (Inl e)"
    by (simp add: search_linkedin_result)
  with a show "search_person cls globals ev sp c0 rl0 fs n = Some (Inl e)"
    by (intro search_person_linkedin_raises) simp_all
qed

text \<open>
  Claim C1 as stated fails: with the source unreachable, \<^verbatim>\<open>search_person("Jane Doe")\<close>
  on a fresh crawler raises the request's exception and returns no record.
\<close>

theorem search_person_source_down_counterexample:
  "search_person EnhancedWebCrawler_class crawler_globals env_down ''data/'' clock0
       (RateLimiter_init 60 10) fs0 ''Jane Doe''
     = Some (Inl (RequestException ''connection''))"
proof -
  have "search_linkedin env_down ''Jane Doe'' clock0
          \<lparr>requests_per_minute = 60, burst_limit = 10, requests = [0]\<rparr>
        = Some (Inl (RequestException ''connection''))"
    by (simp add: search_linkedin_def second_wait) (simp add: env_down_def)
  then show ?thesis
    by (intro search_person_linkedin_raises [where ?c0.0 = clock0]) (simp_all add: fresh_wait)
qed

theorem source_failure_propagates_witness:
  "search_linkedin (env_status 503 []) ''John Roe'' clock0 (RateLimiter_init 60 10)
     = Some (Inr (Map.empty, clock0,
                  \<lparr>requests_per_minute = 60, burst_limit = 10, requests = [0]\<rparr>))
   \<and> search_person EnhancedWebCrawler_class crawler_globals (env_status 503 []) ''data/''
        clock0 (RateLimiter_init 60 10) fs0 ''John Roe''
     = search_person_remaining EnhancedWebCrawler_class crawler_globals (env_status 503 [])
         ''data/'' fs0 ''John Roe'' (PersonData_init ''John Roe'') Map.empty clock0
         \<lparr>requests_per_minute = 60, burst_limit = 10, requests = [0, 0]\<rparr>
   \<and> search_linkedin env_down ''John Roe'' clock0 (RateLimiter_init 60 10)
     = Some (Inl (RequestException ''connection''))
   \<and> search_person EnhancedWebCrawler_class crawler_globals env_down ''data/'' clock0
        (RateLimiter_init 60 10) fs0 ''John Roe''
     = Some (Inl (RequestException ''connection''))"
proof -
  let ?rl1 = "\<lparr>requests_per_minute = 60, burst_limit = 10, requests = [0]\<rparr>"
  let ?rl2 = "\<lparr>requests_per_minute = 60, burst_limit = 10, requests = [0, 0]\<rparr>"
  let ?n = "''John Roe''"
  have w1: "wait_if_needed (jitter (env_status 503 [])) clock0 (RateLimiter_init 60 10)
      = Some (clock0, ?rl1)" by (rule fresh_wait)
  have w1': "wait_if_needed (jitter (env_status 503 [])) clock0 ?rl1 = Some (clock0, ?rl2)"
    by (rule second_wait)
  have h1: "http_get (env_status 503 []) (search_url ?n) = Response 503 []"
    by (simp add: env_status_def)
  have w2: "wait_if_needed (jitter env_down) clock0 (RateLimiter_init 60 10)
      = Some (clock0, ?rl1)" by (rule fresh_wait)
  have w3: "wait_if_needed (jitter env_down) clock0 ?rl1 = Some (clock0, ?rl2)"
    by (rule second_wait)
  have h2: "http_get env_down (search_url ?n) = Raises (RequestException ''connection'')"
    by (simp add: env_down_def)
  from source_failure_propagates
    [of "env_status 503 []" clock0 "RateLimiter_init 60 10" clock0 ?rl1 ?n 503 "[]"]
    w1 h1
  have a: "search_linkedin (env_status 503 []) ?n clock0 (RateLimiter_init 60 10)
     = Some (Inr (Map.empty, clock0, ?rl1))" by simp
  from source_failure_propagates
    [of "env_status 503 []" clock0 ?rl1 clock0 ?rl2 ?n 503 "[]" clock0
        "RateLimiter_init 60 10" EnhancedWebCrawler_class crawler_globals "''data/''" fs0]
    w1 w1' h1
  have b: "search_person EnhancedWebCrawler_class crawler_globals (env_status 503 []) ''data/''
        clock0 (RateLimiter_init 60 10) fs0 ?n
     = search_person_remaining EnhancedWebCrawler_class crawler_globals (env_status 503 [])
         ''data/'' fs0 ?n (PersonData_init ?n) Map.empty clock0 ?rl2" by simp
  from source_failure_propagates
    [of env_down clock0 "RateLimiter_init 60 10" clock0 ?rl1 ?n _ _ _ _ _ _ _ _
        "RequestException ''connection''"]
    w2 h2
  have c: "search_linkedin env_down ?n clock0 (RateLimiter_init 60 10)
     = Some (Inl (RequestException ''connection''))" by simp
  from source_failure_propagates
    [of env_down clock0 ?rl1 clock0 ?rl2 ?n _ _ clock0 "RateLimiter_init 60 10"
        EnhancedWebCrawler_class crawler_globals "''data/''" fs0
        "RequestException ''connection''"]
    w2 w3 h2
  have d: "search_person EnhancedWebCrawler_class crawler_globals env_down ''data/'' clock0
        (RateLimiter_init 60 10) fs0 ?n
     = Some (Inl (RequestException ''connection''))" by simp
  from a b c d show ?thesis by simp
qed

section \<open>What a search returns\<close>

lemma save_person_data_Inr:
  assumes "save_person_data globals now fs sp d = Inr (pid, fs')"
  shows "pid = generate_id d
    \<and> fs' = fs\<lparr>files := (files fs)(os_path_join sp (generate_id d @ ''.json'')
                              \<mapsto> sanitize_data now d)\<rparr>"
  using assms
  by (auto simp: save_person_data_def Let_def open_w_dump_def
           split: sum.splits if_splits)

lemma EnhancedWebCrawler_new_NameError:
  "EnhancedWebCrawler_new crawler_globals fs [] = Inl (NameError ''os'')"
  by (simp add: EnhancedWebCrawler_new_def bind_kwargs_def DataHandler_init_def
        ensure_storage_exists_def os_not_imported)

text \<open>
  Claim C3. The claim is that \<^verbatim>\<open>search_person\<close> returns the sanitized record whatever
  becomes of persistence. The program returns no record at all. The class defines
  neither \<^verbatim>\<open>search_github\<close> nor \<^verbatim>\<open>search_scholar\<close> nor \<^verbatim>\<open>combine_info\<close>, so on every crawler,
  for every name, clock, limiter, file system and environment, \<^verbatim>\<open>search_person\<close> does
  not return a record: with every request answered by status 200 it raises
  \<^verbatim>\<open>AttributeError\<close> at \<^verbatim>\<open>self.search_github\<close>. The constructor \<^verbatim>\<open>EnhancedWebCrawler()\<close>
  itself raises \<^verbatim>\<open>NameError\<close>, on the handler's missing import.
\<close>

theorem search_person_returns_no_record:
  "(\<forall>x. search_person EnhancedWebCrawler_class globals ev sp c rl fs n \<noteq> Some (Inr x))
   \<and> search_person EnhancedWebCrawler_class crawler_globals
        (env_status 200 [Some ''https://www.linkedin.com/in/janedoe'']) ''data/'' clock0
        (RateLimiter_init 60 10) fs0 ''Jane Doe''
      = Some (Inl (AttributeError ''search_github''))
   \<and> EnhancedWebCrawler_new crawler_globals fs [] = Inl (NameError ''os'')"
proof (intro conjI allI)
  fix x
  have r: "\<And>p li c1 rl1. search_person_remaining EnhancedWebCrawler_class globals ev sp fs n
      p li c1 rl1 = Some (Inl (AttributeError ''search_github''))"
    by (rule search_person_remaining_no_github) (simp add: EnhancedWebCrawler_class_def)
  show "search_person EnhancedWebCrawler_class globals ev sp c rl fs n \<noteq> Some (Inr x)"
    by (simp add: search_person_def Let_def r split: option.splits sum.splits prod.splits)
next
  have "search_linkedin (env_status 200 [Some ''https://www.linkedin.com/in/janedoe''])
        ''Jane Doe'' clock0 \<lparr>requests_per_minute = 60, burst_limit = 10, requests = [0]\<rparr>
      = Some (Inr (parse_linkedin_results [Some ''https://www.linkedin.com/in/janedoe''],
            clock0, \<lparr>requests_per_minute = 60, burst_limit = 10, requests = [0, 0]\<rparr>))"
    by (simp add: search_linkedin_def second_wait) (simp add: env_status_def)
  then show "search_person EnhancedWebCrawler_class crawler_globals
        (env_status 200 [Some ''https://www.linkedin.com/in/janedoe'']) ''data/'' clock0
        (RateLimiter_init 60 10) fs0 ''Jane Doe''
      = Some (Inl (AttributeError ''search_github''))"
    by (simp add: search_person_def fresh_wait search_person_remaining_no_github
          EnhancedWebCrawler_class_def)
next
  show "EnhancedWebCrawler_new crawler_globals fs [] = Inl (NameError ''os'')"
    by (rule EnhancedWebCrawler_new_NameError)
qed

text \<open>
  For every class and every set of globals: a record that \<^verbatim>\<open>search_person\<close> returns is
  the working record as \<^verbatim>\<open>combine_info\<close> left it (line 142 returns \<^verbatim>\<open>person_data\<close>), and
  it is returned only after \<^verbatim>\<open>save_person_data\<close> has stored the copy built by
  \<^verbatim>\<open>sanitize_data\<close>.
\<close>

lemma search_person_remaining_Inr:
  assumes "search_person_remaining cls globals ev sp fs n p li c1 rl1
             = Some (Inr (r, c', rl', fs'))"
  shows "\<exists>combine gi si pid.
           combine_info cls = Some combine
         \<and> combine p li gi si = Inr r
         \<and> save_person_data globals (now_us c') fs sp r = Inr (pid, fs')"
proof -
  from assms obtain gi c2 rl2 where
    g: "call_source (search_github cls) ''search_github'' ev n c1 rl1 = Some (Inr (gi, c2, rl2))"
    by (auto simp: search_person_remaining_def split: option.splits sum.splits)
  from assms g obtain si c3 rl3 where
    s: "call_source (search_scholar cls) ''search_scholar'' ev n c2 rl2 = Some (Inr (si, c3, rl3))"
    by (auto simp: search_person_remaining_def split: option.splits sum.splits)
  from assms g s obtain combine where cb: "combine_info cls = Some combine"
    by (auto simp: search_person_remaining_def split: option.splits sum.splits)
  from assms g s cb obtain q where q: "combine p li gi si = Inr q"
    by (auto simp: search_person_remaining_def split: option.splits sum.splits)
  from assms g s cb q obtain pid where
    "save_person_data globals (now_us c3) fs sp q = Inr (pid, fs')" "r = q" "c' = c3"
    by (auto simp: search_person_remaining_def split: option.splits sum.splits)
  with cb q show ?thesis by blast
qed

section \<open>The entry point\<close>

lemma EnhancedWebCrawler_new_unexpected:
  "EnhancedWebCrawler_new globals fs ((k, v) # kwargs) = Inl (TypeError k)"
  by (simp add: EnhancedWebCrawler_new_def bind_kwargs_def EnhancedWebCrawler_init_params_def)

text \<open>
  Claim C10, as amended. When the three variables are set to non-empty values,
  \<^verbatim>\<open>main()\<close> raises \<^verbatim>\<open>TypeError\<close> at the construction of the crawler, whose
  \<^verbatim>\<open>__init__\<close> takes no keyword argument, and the bot is never started, whatever the
  bot would do. When one of them is unset or empty, \<^verbatim>\<open>main()\<close> raises \<^verbatim>\<open>ValueError\<close>,
  before the construction.
\<close>

theorem main_raises_before_bot:
  "(truthy (environ ''TELEGRAM_BOT_TOKEN'') \<and> truthy (environ ''GOOGLE_API_KEY'')
      \<and> truthy (environ ''SEARCH_ENGINE_ID'')
      \<longrightarrow> main environ fs run_bot = Inl (TypeError ''google_api_key''))
   \<and> (\<not> (truthy (environ ''TELEGRAM_BOT_TOKEN'') \<and> truthy (environ ''GOOGLE_API_KEY'')
          \<and> truthy (environ ''SEARCH_ENGINE_ID''))
      \<longrightarrow> main environ fs run_bot
            = Inl (ValueError ''Missing required API keys in environment variables''))"
  by (auto simp: main_def Let_def EnhancedWebCrawler_new_unexpected)

theorem main_raises_before_bot_witness:
  "main [''TELEGRAM_BOT_TOKEN'' \<mapsto> ''token'', ''GOOGLE_API_KEY'' \<mapsto> ''key'',
         ''SEARCH_ENGINE_ID'' \<mapsto> ''engine''] fs0 (\<lambda>token crawler. Inr ())
     = Inl (TypeError ''google_api_key'')
   \<and> main Map.empty fs0 (\<lambda>token crawler. Inr ())
     = Inl (ValueError ''Missing required API keys in environment variables'')"
proof -
  let ?e = "[''TELEGRAM_BOT_TOKEN'' \<mapsto> ''token'', ''GOOGLE_API_KEY'' \<mapsto> ''key'',
         ''SEARCH_ENGINE_ID'' \<mapsto> ''engine'']"
  have t: "truthy (?e ''TELEGRAM_BOT_TOKEN'') \<and> truthy (?e ''GOOGLE_API_KEY'')
      \<and> truthy (?e ''SEARCH_ENGINE_ID'')"
    by (simp add: truthy_def)
  have f: "\<not> (truthy (Map.empty ''TELEGRAM_BOT_TOKEN'') \<and> truthy (Map.empty ''GOOGLE_API_KEY'')
      \<and> truthy (Map.empty ''SEARCH_ENGINE_ID''))"
    by (simp add: truthy_def)
  from main_raises_before_bot [of ?e fs0 "\<lambda>token crawler. Inr ()"] t
  have a: "main ?e fs0 (\<lambda>token crawler. Inr ()) = Inl (TypeError ''google_api_key'')"
    by blast
  from main_raises_before_bot [of Map.empty fs0 "\<lambda>token crawler. Inr ()"] f
  have b: "main Map.empty fs0 (\<lambda>token crawler. Inr ())
     = Inl (ValueError ''Missing required API keys in environment variables'')"
    by blast
  from a b show ?thesis by blast
qed

text \<open>
  Claim C10 as stated fails: with the three variables set and \<^verbatim>\<open>GOOGLE_API_KEY\<close> set to
  the empty string, \<^verbatim>\<open>main()\<close> raises \<^verbatim>\<open>ValueError\<close>, not \<^verbatim>\<open>TypeError\<close>.
\<close>

theorem main_empty_variable_counterexample:
  "[''TELEGRAM_BOT_TOKEN'' \<mapsto> ''token'', ''GOOGLE_API_KEY'' \<mapsto> '''',
         ''SEARCH_ENGINE_ID'' \<mapsto> ''engine''] ''TELEGRAM_BOT_TOKEN'' = Some ''token''
   \<and> [''TELEGRAM_BOT_TOKEN'' \<mapsto> ''token'', ''GOOGLE_API_KEY'' \<mapsto> '''',
         ''SEARCH_ENGINE_ID'' \<mapsto> ''engine''] ''GOOGLE_API_KEY'' = Some ''''
   \<and> [''TELEGRAM_BOT_TOKEN'' \<mapsto> ''token'', ''GOOGLE_API_KEY'' \<mapsto> '''',
         ''SEARCH_ENGINE_ID'' \<mapsto> ''engine''] ''SEARCH_ENGINE_ID'' = Some ''engine''
   \<and> main [''TELEGRAM_BOT_TOKEN'' \<mapsto> ''token'', ''GOOGLE_API_KEY'' \<mapsto> '''',
         ''SEARCH_ENGINE_ID'' \<mapsto> ''engine''] fs0 (\<lambda>token crawler. Inr ())
     = Inl (ValueError ''Missing required API keys in environment variables'')
   \<and> main [''TELEGRAM_BOT_TOKEN'' \<mapsto> ''token'', ''GOOGLE_API_KEY'' \<mapsto> '''',
         ''SEARCH_ENGINE_ID'' \<mapsto> ''engine''] fs0 (\<lambda>token crawler. Inr ())
     \<noteq> Inl (TypeError ''google_api_key'')"
  by (simp add: main_def truthy_def)

end
